theory Spec2Isabelle
  imports Main "HOL-Library.Word"
begin

section \<open>Errors and results\<close>

text \<open>
  A Go function returning \<open>(T, error)\<close> is modelled as a pair whose second component is
  \<open>None\<close> for the \<open>nil\<close> error; a pointer or interface result that may be \<open>nil\<close> is an
  \<open>option\<close>. The error values of \<open>internal/configure.go\<close> are the two error structs it
  declares, the \<open>*strconv.NumError\<close> of the standard library's parsers, an error wrapped
  with a message by \<open>errors.Wrap\<close>, and whatever an external collaborator (a storage
  adapter, the disk) reports.
\<close>

datatype NumErrKind = ErrSyntax | ErrRange

datatype error =
    UnconfiguredStorageError "string list"
  | UnknownCompressionMethodError "string list"
  | NumError string string NumErrKind
  | Wrap error string
  | ExternalError string

text \<open>\<open>NewUnconfiguredStorageError\<close>: the error built from the list of setting names.\<close>

definition NewUnconfiguredStorageError :: "string list \<Rightarrow> error" where
  "NewUnconfiguredStorageError storagePrefixVariants =
     UnconfiguredStorageError storagePrefixVariants"

definition NewUnknownCompressionMethodError :: "string list \<Rightarrow> error" where
  "NewUnknownCompressionMethodError algorithms = UnknownCompressionMethodError algorithms"

section \<open>The settings source\<close>

text \<open>
  Modelled from the spec: the settings source (\<open>LookupValue\<close>, \<open>GetSettingValue\<close>) is not
  part of the two source files. The spec gives it as a key/value lookup with the
  operations \<open>Lookup(name) -> (value, found)\<close> and \<open>GetOrEmpty(name) -> value\<close>; it is a
  partial map from setting names to values here.
\<close>

type_synonym settings = "string \<rightharpoonup> string"

definition LookupValue :: "settings \<Rightarrow> string \<Rightarrow> string \<times> bool" where
  "LookupValue env key = (case env key of Some v \<Rightarrow> (v, True) | None \<Rightarrow> ('''', False))"

definition GetSettingValue :: "settings \<Rightarrow> string \<Rightarrow> string" where
  "GetSettingValue env key = (case LookupValue env key of (v, ok) \<Rightarrow> if ok then v else '''')"

section \<open>Storage adapters and the external world\<close>

text \<open>
  A storage adapter descriptor, with the fields \<open>ConfigureFolder\<close> reads. The settings
  loader is a closure over the settings source, so it takes the source as its argument.
\<close>

record ('st, 'f) StorageAdapter =
  prefixName :: string
  prefixPreprocessor :: "(string \<Rightarrow> string) option"
  loadSettings :: "settings \<Rightarrow> 'st \<times> error option"
  configureFolder :: "string \<Rightarrow> 'st \<Rightarrow> 'f option \<times> error option"

text \<open>
  Everything \<open>internal/configure.go\<close> reads but does not define is a field of the world:
  the settings source, the adapter registry \<open>StorageAdapters\<close>, the compressor registry,
  the constants \<open>lz4.AlgorithmName\<close> and \<open>DatabasePageSize\<close>, the standard library's
  \<open>filepath.Join\<close>, the file system as seen by \<open>os.Stat\<close> (\<open>None\<close>: no error) and
  \<open>NewDiskDataFolder\<close>.
\<close>

record ('st, 'f, 'c, 'd) world =
  env :: settings
  StorageAdapters :: "('st, 'f) StorageAdapter list"
  Compressors :: "string \<rightharpoonup> 'c"
  CompressingAlgorithms :: "string list"
  lz4_AlgorithmName :: string
  DatabasePageSize :: "64 word"
  filepath_Join :: "string \<Rightarrow> string \<Rightarrow> string"
  os_Stat :: "string \<Rightarrow> error option"
  NewDiskDataFolder :: "string \<Rightarrow> 'd option \<times> error option"

section \<open>ConfigureFolder\<close>

text \<open>
  The loop of \<open>ConfigureFolder\<close> over the registry, with \<open>skippedPrefixes\<close> as the
  accumulator. An adapter whose setting reads as the empty string is skipped; the first
  other adapter decides the result, whatever its loader or constructor returns.
\<close>

fun ConfigureFolder_loop ::
  "settings \<Rightarrow> ('st, 'f) StorageAdapter list \<Rightarrow> string list \<Rightarrow> 'f option \<times> error option" where
  "ConfigureFolder_loop e [] skippedPrefixes =
     (None, Some (NewUnconfiguredStorageError skippedPrefixes))"
| "ConfigureFolder_loop e (adapter # rest) skippedPrefixes =
     (let prefix = GetSettingValue e (prefixName adapter) in
      if prefix = '''' then
        ConfigureFolder_loop e rest (skippedPrefixes @ [prefixName adapter])
      else
        let prefix' = (case prefixPreprocessor adapter of
                         None \<Rightarrow> prefix
                       | Some preprocess \<Rightarrow> preprocess prefix);
            (settings, err) = loadSettings adapter e
        in if err \<noteq> None then (None, err)
           else configureFolder adapter prefix' settings)"

definition ConfigureFolder :: "('st, 'f, 'c, 'd) world \<Rightarrow> 'f option \<times> error option" where
  "ConfigureFolder w = ConfigureFolder_loop (env w) (StorageAdapters w) []"

text \<open>The prefix handed to the selected adapter's constructor: the setting, preprocessed.\<close>

definition adapter_prefix :: "settings \<Rightarrow> ('st, 'f) StorageAdapter \<Rightarrow> string" where
  "adapter_prefix e adapter =
     (case prefixPreprocessor adapter of
        None \<Rightarrow> GetSettingValue e (prefixName adapter)
      | Some preprocess \<Rightarrow> preprocess (GetSettingValue e (prefixName adapter)))"

section \<open>The standard library's parsers\<close>

text \<open>
  \<open>strconv.ParseBool\<close> of the Go standard library: six spellings of true, six of false,
  a syntax error for every other string.
\<close>

definition ParseBool :: "string \<Rightarrow> bool \<times> error option" where
  "ParseBool str =
     (if str \<in> set [''1'', ''t'', ''T'', ''true'', ''TRUE'', ''True''] then (True, None)
      else if str \<in> set [''0'', ''f'', ''F'', ''false'', ''FALSE'', ''False''] then (False, None)
      else (False, Some (NumError ''ParseBool'' str ErrSyntax)))"

text \<open>
  \<open>strconv.ParseUint(s, 10, 64)\<close>: the digit loop on a \<open>uint64\<close> accumulator. The
  accumulator is a natural number here; the loop's own overflow tests (\<open>n >= cutoff\<close>
  before the multiplication, \<open>n1 < n || n1 > maxVal\<close> after the addition) keep it below
  \<open>2 ^ 64\<close>, and the wrap-around test \<open>n1 < n\<close> is the test \<open>n1 > maxVal\<close> on naturals.
\<close>

definition maxVal :: nat where
  "maxVal = 2 ^ 64 - 1"

definition ParseUint_cutoff :: nat where
  "ParseUint_cutoff = maxVal div 10 + 1"

fun ParseUint_loop :: "string \<Rightarrow> string \<Rightarrow> nat \<Rightarrow> nat \<times> error option" where
  "ParseUint_loop s0 [] n = (n, None)"
| "ParseUint_loop s0 (c # cs) n =
     (let b = (of_char c :: nat) in
      if \<not> (48 \<le> b \<and> b \<le> 57) then (0, Some (NumError ''ParseUint'' s0 ErrSyntax))
      else
        let d = b - 48 in
        if n \<ge> ParseUint_cutoff then (maxVal, Some (NumError ''ParseUint'' s0 ErrRange))
        else
          let n1 = n * 10 + d in
          if n1 > maxVal then (maxVal, Some (NumError ''ParseUint'' s0 ErrRange))
          else ParseUint_loop s0 cs n1)"

definition ParseUint :: "string \<Rightarrow> nat \<times> error option" where
  "ParseUint s =
     (if s = [] then (0, Some (NumError ''ParseUint'' s ErrSyntax))
      else ParseUint_loop s s 0)"

text \<open>The \<open>Err\<close> field of a \<open>*strconv.NumError\<close>.\<close>

definition NumError_Err :: "error \<Rightarrow> NumErrKind option" where
  "NumError_Err e = (case e of NumError func num kind \<Rightarrow> Some kind | _ \<Rightarrow> None)"

text \<open>
  \<open>strconv.ParseInt(s, 10, 64)\<close>: an optional sign, then \<open>ParseUint\<close>, then the range
  test against \<open>2 ^ 63\<close>. The result is an \<open>int64\<close>. An error of \<open>ParseUint\<close> other
  than its range error is returned under the name of \<open>ParseInt\<close> and with the whole
  input (it is the syntax error); its range error leaves \<open>maxVal\<close> in \<open>un\<close>, which the
  range test then rejects.
\<close>

definition ParseInt :: "string \<Rightarrow> 64 word \<times> error option" where
  "ParseInt s0 =
     (if s0 = [] then (0, Some (NumError ''ParseInt'' s0 ErrSyntax))
      else
        let neg = (hd s0 = CHR ''-'');
            s = (if hd s0 = CHR ''+'' \<or> hd s0 = CHR ''-'' then tl s0 else s0);
            (un, err) = ParseUint s;
            not_range = (case err of None \<Rightarrow> False
                         | Some e \<Rightarrow> NumError_Err e \<noteq> Some ErrRange);
            cutoff = (2 ^ 63 :: nat)
        in if not_range
             then (0, Some (NumError ''ParseInt'' s0 ErrSyntax))
           else if \<not> neg \<and> un \<ge> cutoff
             then (word_of_nat (cutoff - 1), Some (NumError ''ParseInt'' s0 ErrRange))
           else if neg \<and> un > cutoff
             then (- word_of_nat cutoff, Some (NumError ''ParseInt'' s0 ErrRange))
           else (if neg then - word_of_nat un else word_of_nat un, None))"

section \<open>ConfigureLimiters\<close>

text \<open>
  The conversion \<open>rate.Limit(r)\<close> of an \<open>int64\<close> to the \<open>float64\<close> type \<open>rate.Limit\<close>:
  the nearest \<open>float64\<close>, ties to the even significand. A \<open>float64\<close> has a significand
  of 53 bits, so an integer below \<open>2 ^ 53\<close> in absolute value is kept, and a larger one
  is rounded to a multiple of \<open>2 ^ e\<close>, where \<open>e\<close> is the number of bits it has beyond 53.
  Every \<open>float64\<close> reached in this way is an integer, and the model keeps that integer.
\<close>

fun bit_length :: "nat \<Rightarrow> nat" where
  "bit_length n = (if n = 0 then 0 else Suc (bit_length (n div 2)))"

declare bit_length.simps [simp del]

definition float64_of_int :: "int \<Rightarrow> int" where
  "float64_of_int i =
     (let a = nat \<bar>i\<bar> in
      if a < 2 ^ 53 then i
      else
        let e = bit_length a - 53;
            q = a div 2 ^ e;
            r = a mod 2 ^ e;
            half = 2 ^ (e - 1);
            q' = (if r > half \<or> (r = half \<and> odd q) then q + 1 else q)
        in sgn i * int (q' * 2 ^ e))"

definition rate_Limit :: "64 word \<Rightarrow> int" where
  "rate_Limit r = float64_of_int (sint r)"

text \<open>
  A token-bucket limiter as \<open>rate.NewLimiter(limit, b)\<close> builds it. \<open>limit\<close> is the value
  of the \<open>float64\<close> rate; \<open>burst\<close> is a Go \<open>int\<close>, 64 bits wide on the 64-bit platforms
  the program is built for, so that \<open>int(x)\<close> of an \<open>int64\<close> is \<open>x\<close>.
\<close>

record Limiter =
  limit :: int
  burst :: "64 word"

definition NewLimiter :: "int \<Rightarrow> 64 word \<Rightarrow> Limiter" where
  "NewLimiter r b = \<lparr>limit = r, burst = b\<rparr>"

text \<open>The two package-level limiters; \<open>None\<close> is the unset (unlimited) limiter.\<close>

record limiters =
  DiskLimiter :: "Limiter option"
  NetworkLimiter :: "Limiter option"

definition DefaultDataBurstRateLimit :: "('st, 'f, 'c, 'd) world \<Rightarrow> 64 word" where
  "DefaultDataBurstRateLimit w = 8 * DatabasePageSize w"

text \<open>The second block of \<open>ConfigureLimiters\<close>, reached when the first did not return.\<close>

definition ConfigureLimiters_network ::
  "('st, 'f, 'c, 'd) world \<Rightarrow> limiters \<Rightarrow> limiters \<times> error option" where
  "ConfigureLimiters_network w g =
     (let netLimitStr = GetSettingValue (env w) ''WALG_NETWORK_RATE_LIMIT'' in
      if netLimitStr \<noteq> '''' then
        (case ParseInt netLimitStr of
           (netLimit, Some err) \<Rightarrow> (g, Some (Wrap err ''failed to parse WALG_NETWORK_RATE_LIMIT''))
         | (netLimit, None) \<Rightarrow>
             (g\<lparr>NetworkLimiter :=
                  Some (NewLimiter (rate_Limit netLimit)
                          (netLimit + DefaultDataBurstRateLimit w))\<rparr>, None))
      else (g, None))"

definition ConfigureLimiters ::
  "('st, 'f, 'c, 'd) world \<Rightarrow> limiters \<Rightarrow> limiters \<times> error option" where
  "ConfigureLimiters w g =
     (let diskLimitStr = GetSettingValue (env w) ''WALG_DISK_RATE_LIMIT'' in
      if diskLimitStr \<noteq> '''' then
        (case ParseInt diskLimitStr of
           (diskLimit, Some err) \<Rightarrow> (g, Some (Wrap err ''failed to parse WALG_DISK_RATE_LIMIT''))
         | (diskLimit, None) \<Rightarrow>
             ConfigureLimiters_network w
               (g\<lparr>DiskLimiter :=
                    Some (NewLimiter (rate_Limit diskLimit)
                            (diskLimit + DefaultDataBurstRateLimit w))\<rparr>))
      else ConfigureLimiters_network w g)"

section \<open>The delta data folder\<close>

definition DefaultDataFolderPath :: string where
  "DefaultDataFolderPath = ''/tmp''"

definition getDataFolderPath :: "('st, 'f, 'c, 'd) world \<Rightarrow> string" where
  "getDataFolderPath w =
     (case LookupValue (env w) ''PGDATA'' of (pgdata, ok) \<Rightarrow>
        let dataFolderPath =
          (if \<not> ok then DefaultDataFolderPath
           else
             let pg_wal = filepath_Join w pgdata ''pg_wal'' in
             if os_Stat w pg_wal \<noteq> None then
               (let pg_xlog = filepath_Join w pgdata ''pg_xlog'' in
                if os_Stat w pg_xlog \<noteq> None then DefaultDataFolderPath else pg_xlog)
             else pg_wal)
        in filepath_Join w dataFolderPath ''walg_data'')"

text \<open>
  \<open>configureWalDeltaUsage\<close>, with its three named results. The warning it logs when the
  folder cannot be opened has no effect on what it returns and is not modelled.
\<close>

definition configureWalDeltaUsage ::
  "('st, 'f, 'c, 'd) world \<Rightarrow> bool \<times> 'd option \<times> error option" where
  "configureWalDeltaUsage w =
     (case (case LookupValue (env w) ''WALG_USE_WAL_DELTA'' of
              (useWalDeltaStr, ok) \<Rightarrow> if ok then ParseBool useWalDeltaStr else (False, None)) of
        (useWalDelta, Some err) \<Rightarrow>
          (False, None, Some (Wrap err ''failed to parse WALG_USE_WAL_DELTA''))
      | (useWalDelta, None) \<Rightarrow>
          if \<not> useWalDelta then (useWalDelta, None, None)
          else
            let dataFolderPath = getDataFolderPath w in
            (case NewDiskDataFolder w dataFolderPath of
               (deltaDataFolder, Some err) \<Rightarrow> (False, deltaDataFolder, None)
             | (deltaDataFolder, None) \<Rightarrow> (useWalDelta, deltaDataFolder, None)))"

section \<open>The compressor and the uploader\<close>

definition configureCompressor :: "('st, 'f, 'c, 'd) world \<Rightarrow> 'c option \<times> error option" where
  "configureCompressor w =
     (let compressionMethod = GetSettingValue (env w) ''WALG_COMPRESSION_METHOD'';
          compressionMethod =
            (if compressionMethod = '''' then lz4_AlgorithmName w else compressionMethod)
      in case Compressors w compressionMethod of
           None \<Rightarrow> (None, Some (NewUnknownCompressionMethodError (CompressingAlgorithms w)))
         | Some c \<Rightarrow> (Some c, None))"

text \<open>
  Modelled from the spec: \<open>NewUploader\<close> and the \<open>Uploader\<close> struct are not part of the
  two source files. The spec gives the uploader as the aggregate of the compressor, the
  storage folder, the optional delta data folder and the delta-usage flag.
\<close>

record ('c, 'f, 'd) Uploader =
  Compressor :: "'c option"
  UploadingFolder :: "'f option"
  deltaDataFolder :: "'d option"
  useWalDelta :: bool

definition NewUploader ::
  "'c option \<Rightarrow> 'f option \<Rightarrow> 'd option \<Rightarrow> bool \<Rightarrow> ('c, 'f, 'd) Uploader" where
  "NewUploader compressor folder deltaFolder useDelta =
     \<lparr>Compressor = compressor, UploadingFolder = folder,
      deltaDataFolder = deltaFolder, useWalDelta = useDelta\<rparr>"

definition ConfigureUploader ::
  "('st, 'f, 'c, 'd) world \<Rightarrow> ('c, 'f, 'd) Uploader option \<times> error option" where
  "ConfigureUploader w =
     (case ConfigureFolder w of
        (folder, Some err) \<Rightarrow> (None, Some (Wrap err ''failed to configure folder''))
      | (folder, None) \<Rightarrow>
     (case configureCompressor w of
        (compressor, Some err) \<Rightarrow> (None, Some (Wrap err ''failed to configure compression''))
      | (compressor, None) \<Rightarrow>
     (case configureWalDeltaUsage w of
        (useDelta, deltaFolder, Some err) \<Rightarrow>
          (None, Some (Wrap err ''failed to configure WAL Delta usage''))
      | (useDelta, deltaFolder, None) \<Rightarrow>
          (Some (NewUploader compressor folder deltaFolder useDelta), None))))"

section \<open>ConfigureCrypter\<close>

text \<open>
  Modelled from the spec: the three constructors of the \<open>openpgp\<close> package are not part
  of the two source files. Each builds a Crypter from one kind of key material and the
  passphrase; a value of this type records which constructor was called and with what.
  \<open>ConfigureCrypter\<close> returns an interface value, \<open>None\<close> being \<open>nil\<close>. The passphrase is
  read through \<open>config.LookupValue\<close> and the keys through \<open>LookupValue\<close>: both are the
  lookup of the one settings source.
\<close>

datatype Crypter =
    CrypterFromArmoredKey string string
  | CrypterFromArmoredKeyPath string string
  | CrypterFromKeyRingID string string

definition ConfigureCrypter :: "settings \<Rightarrow> Crypter option" where
  "ConfigureCrypter e =
     (case LookupValue e ''WALG_PGP_KEY_PASSPHRASE'' of (passphrase, isExist) \<Rightarrow>
      if \<not> isExist then None
      else
     (case LookupValue e ''WALG_PGP_KEY'' of (armoredKey, isKeyExist) \<Rightarrow>
      if isKeyExist then Some (CrypterFromArmoredKey armoredKey passphrase)
      else
     (case LookupValue e ''WALG_PGP_KEY_PATH'' of (armoredKeyPath, isPathExist) \<Rightarrow>
      if isPathExist then Some (CrypterFromArmoredKeyPath armoredKeyPath passphrase)
      else
        let keyRingID = GetSettingValue e ''WALE_GPG_KEY_ID'' in
        if keyRingID \<noteq> '''' then Some (CrypterFromKeyRingID keyRingID passphrase)
        else None)))"

section \<open>The fallback chain of the delta folder, as specified\<close>

text \<open>
  The path of the delta folder in the words of the specification: the first candidate
  that exists, else the default, is the base; \<open>walg_data\<close> is appended to the base.
  \<open>getDataFolderPath\<close> is compared with it below.
\<close>

definition first_existing :: "('st, 'f, 'c, 'd) world \<Rightarrow> string list \<Rightarrow> string \<Rightarrow> string" where
  "first_existing w candidates dflt =
     (case filter (\<lambda>p. os_Stat w p = None) candidates of [] \<Rightarrow> dflt | p # _ \<Rightarrow> p)"

definition base_directory_spec :: "('st, 'f, 'c, 'd) world \<Rightarrow> string" where
  "base_directory_spec w =
     (case env w ''PGDATA'' of
        None \<Rightarrow> ''/tmp''
      | Some pgdata \<Rightarrow>
          first_existing w
            [filepath_Join w pgdata ''pg_wal'', filepath_Join w pgdata ''pg_xlog''] ''/tmp'')"

section \<open>A concrete world\<close>

text \<open>
  A registry of three adapters \<open>A\<close>, \<open>B\<close>, \<open>C\<close> in this order, used to run the model.
  \<open>A\<close> and \<open>C\<close> build their folder; \<open>B\<close> strips a host prefix from its setting, loads
  its settings and then fails to build its folder. Folders, compressors, adapter
  settings and data folders are named by strings.
\<close>

definition adapterA :: "(string, string) StorageAdapter" where
  "adapterA = \<lparr>prefixName = ''A_PREFIX'', prefixPreprocessor = None,
               loadSettings = (\<lambda>e. (''settings of A'', None)),
               configureFolder = (\<lambda>prefix st. (Some (''A:'' @ prefix), None))\<rparr>"

definition adapterB :: "(string, string) StorageAdapter" where
  "adapterB = \<lparr>prefixName = ''B_PREFIX'',
               prefixPreprocessor =
                 Some (\<lambda>p. if take 16 p = ''file://localhost'' then drop 16 p else p),
               loadSettings = (\<lambda>e. (''settings of B'', None)),
               configureFolder =
                 (\<lambda>prefix st. (None, Some (ExternalError (''cannot open '' @ prefix))))\<rparr>"

definition adapterC :: "(string, string) StorageAdapter" where
  "adapterC = \<lparr>prefixName = ''C_PREFIX'', prefixPreprocessor = None,
               loadSettings = (\<lambda>e. (''settings of C'', None)),
               configureFolder = (\<lambda>prefix st. (Some (''C:'' @ prefix), None))\<rparr>"

text \<open>An adapter on the setting of \<open>B\<close> whose settings cannot be loaded.\<close>

definition adapterL :: "(string, string) StorageAdapter" where
  "adapterL = \<lparr>prefixName = ''B_PREFIX'', prefixPreprocessor = None,
               loadSettings = (\<lambda>e. ([], Some (ExternalError ''settings of B are incomplete''))),
               configureFolder = (\<lambda>prefix st. (Some (''B:'' @ prefix), None))\<rparr>"

text \<open>
  The world around a given settings source: the registry above, one compressor, pages of
  8192 bytes, a join of two clean path elements, a disk on which only the paths of
  \<open>present\<close> exist and on which no data folder can be opened.
\<close>

definition example_world ::
  "settings \<Rightarrow> string list \<Rightarrow> (string, string, string, string) world" where
  "example_world e present =
     \<lparr>env = e,
      StorageAdapters = [adapterA, adapterB, adapterC],
      Compressors = [''lz4'' \<mapsto> ''lz4 compressor''],
      CompressingAlgorithms = [''lz4''],
      lz4_AlgorithmName = ''lz4'',
      DatabasePageSize = 8192,
      filepath_Join = (\<lambda>dir name. dir @ ''/'' @ name),
      os_Stat = (\<lambda>p. if p \<in> set present then None
                       else Some (ExternalError ''no such file or directory'')),
      NewDiskDataFolder = (\<lambda>p. (None, Some (ExternalError ''permission denied'')))\<rparr>"

definition no_limiters :: limiters where
  "no_limiters = \<lparr>DiskLimiter = None, NetworkLimiter = None\<rparr>"

text \<open>Settings sources used to run the model.\<close>

definition env_B_and_C :: settings where
  "env_B_and_C = [''B_PREFIX'' \<mapsto> ''file://localhost/backups'', ''C_PREFIX'' \<mapsto> ''bucket-c'']"

definition env_delta_malformed :: settings where
  "env_delta_malformed = [''A_PREFIX'' \<mapsto> ''bucket-a'', ''WALG_USE_WAL_DELTA'' \<mapsto> ''maybe'']"

definition env_delta_false :: settings where
  "env_delta_false = [''A_PREFIX'' \<mapsto> ''bucket-a'', ''WALG_USE_WAL_DELTA'' \<mapsto> ''false'']"

definition env_delta_true :: settings where
  "env_delta_true = [''A_PREFIX'' \<mapsto> ''bucket-a'', ''WALG_USE_WAL_DELTA'' \<mapsto> ''true'']"

definition env_keys_without_passphrase :: settings where
  "env_keys_without_passphrase =
     [''WALG_PGP_KEY'' \<mapsto> ''armored key'', ''WALG_PGP_KEY_PATH'' \<mapsto> ''/keys/pgp'',
      ''WALE_GPG_KEY_ID'' \<mapsto> ''ring-id'']"

definition env_all_keys :: settings where
  "env_all_keys =
     [''WALG_PGP_KEY_PASSPHRASE'' \<mapsto> ''secret'', ''WALG_PGP_KEY'' \<mapsto> ''armored key'',
      ''WALG_PGP_KEY_PATH'' \<mapsto> ''/keys/pgp'', ''WALE_GPG_KEY_ID'' \<mapsto> ''ring-id'']"

definition env_path_and_ring :: settings where
  "env_path_and_ring =
     [''WALG_PGP_KEY_PASSPHRASE'' \<mapsto> ''secret'', ''WALG_PGP_KEY_PATH'' \<mapsto> ''/keys/pgp'',
      ''WALE_GPG_KEY_ID'' \<mapsto> ''ring-id'']"

definition env_ring_only :: settings where
  "env_ring_only = [''WALG_PGP_KEY_PASSPHRASE'' \<mapsto> ''secret'', ''WALE_GPG_KEY_ID'' \<mapsto> ''ring-id'']"

definition env_empty_ring_id :: settings where
  "env_empty_ring_id = [''WALG_PGP_KEY_PASSPHRASE'' \<mapsto> ''secret'', ''WALE_GPG_KEY_ID'' \<mapsto> '''']"

definition env_empty_passphrase :: settings where
  "env_empty_passphrase =
     [''WALG_PGP_KEY_PASSPHRASE'' \<mapsto> '''', ''WALG_PGP_KEY'' \<mapsto> ''armored key'']"

definition env_empty_key :: settings where
  "env_empty_key =
     [''WALG_PGP_KEY_PASSPHRASE'' \<mapsto> ''secret'', ''WALG_PGP_KEY'' \<mapsto> '''',
      ''WALG_PGP_KEY_PATH'' \<mapsto> ''/keys/pgp'']"

definition env_empty_path :: settings where
  "env_empty_path =
     [''WALG_PGP_KEY_PASSPHRASE'' \<mapsto> ''secret'', ''WALG_PGP_KEY_PATH'' \<mapsto> '''',
      ''WALE_GPG_KEY_ID'' \<mapsto> ''ring-id'']"

definition env_pgdata :: settings where
  "env_pgdata = [''PGDATA'' \<mapsto> ''/var/lib/pg'']"

definition env_disk_malformed :: settings where
  "env_disk_malformed =
     [''WALG_DISK_RATE_LIMIT'' \<mapsto> ''abc'', ''WALG_NETWORK_RATE_LIMIT'' \<mapsto> ''100'']"

definition env_disk_max :: settings where
  "env_disk_max = [''WALG_DISK_RATE_LIMIT'' \<mapsto> ''9223372036854775807'']"

definition env_disk_rounded :: settings where
  "env_disk_rounded = [''WALG_DISK_RATE_LIMIT'' \<mapsto> ''9007199254740993'']"

definition env_limits :: settings where
  "env_limits =
     [''WALG_DISK_RATE_LIMIT'' \<mapsto> ''1048576'', ''WALG_NETWORK_RATE_LIMIT'' \<mapsto> ''2097152'']"


section \<open>Auxiliary facts\<close>

lemmas settings_defs = LookupValue_def GetSettingValue_def

lemmas example_defs = example_world_def adapterA_def adapterB_def adapterC_def adapterL_def

lemmas ParseInt_defs =
  ParseInt_def ParseUint_def maxVal_def ParseUint_cutoff_def NumError_Err_def

lemma ConfigureFolder_loop_skip:
  "\<forall>b \<in> set pre. GetSettingValue e (prefixName b) = [] \<Longrightarrow>
   ConfigureFolder_loop e (pre @ rest) skipped =
   ConfigureFolder_loop e rest (skipped @ map prefixName pre)"
  by (induction pre arbitrary: skipped) simp_all

lemma ConfigureFolder_loop_selected:
  "GetSettingValue e (prefixName a) \<noteq> [] \<Longrightarrow>
   ConfigureFolder_loop e (a # post) skipped =
     (case loadSettings a e of
        (st, Some err) \<Rightarrow> (None, Some err)
      | (st, None) \<Rightarrow> configureFolder a (adapter_prefix e a) st)"
  by (simp add: adapter_prefix_def Let_def split: prod.splits option.splits)

lemma ParseInt_empty: "ParseInt [] = (0, Some (NumError ''ParseInt'' [] ErrSyntax))"
  by (simp add: ParseInt_def)

lemma sint_burst_no_overflow:
  fixes r p :: "64 word"
  assumes "0 \<le> sint p" and "8 * sint p < 2 ^ 63" and "sint r + 8 * sint p < 2 ^ 63"
  shows "sint (r + 8 * p) = sint r + 8 * sint p"
proof -
  have lo: "- (2 ^ 63) \<le> sint r"
    using sint_ge [of r] by simp
  have "sint (8 * p) = signed_take_bit 63 (sint (8 :: 64 word) * sint p)"
    by (simp add: sint_word_ariths)
  also have "\<dots> = 8 * sint p"
    using assms by (simp add: signed_take_bit_int_eq_self)
  finally have c: "sint (8 * p) = 8 * sint p" .
  have "sint (r + 8 * p) = signed_take_bit 63 (sint r + sint (8 * p))"
    by (simp add: sint_word_ariths)
  also have "\<dots> = sint r + 8 * sint p"
    using assms lo by (simp add: c signed_take_bit_int_eq_self)
  finally show ?thesis .
qed

lemma float64_of_int_exact:
  assumes "\<bar>i\<bar> \<le> 2 ^ 53"
  shows "float64_of_int i = i"
proof (cases "\<bar>i\<bar> < 2 ^ 53")
  case True
  then have "nat \<bar>i\<bar> < 2 ^ 53" by simp
  then show ?thesis by (simp add: float64_of_int_def)
next
  case False
  with assms have "i = 9007199254740992 \<or> i = - 9007199254740992" by auto
  then show ?thesis
    by (auto simp add: float64_of_int_def bit_length.simps)
qed

lemma ConfigureLimiters_network_DiskLimiter:
  "DiskLimiter (fst (ConfigureLimiters_network w g)) = DiskLimiter g"
  by (simp add: ConfigureLimiters_network_def Let_def split: prod.splits option.splits)

text \<open>The error of \<open>configureWalDeltaUsage\<close> is the parse error of the setting, or none.\<close>

lemma configureWalDeltaUsage_error:
  "snd (snd (configureWalDeltaUsage w)) =
     (case env w ''WALG_USE_WAL_DELTA'' of
        None \<Rightarrow> None
      | Some s \<Rightarrow>
          (case snd (ParseBool s) of
             None \<Rightarrow> None
           | Some err \<Rightarrow> Some (Wrap err ''failed to parse WALG_USE_WAL_DELTA'')))"
  by (simp add: configureWalDeltaUsage_def LookupValue_def Let_def
      split: option.splits prod.splits)

text \<open>The error of \<open>ConfigureUploader\<close> is the wrapped error of its first failing step.\<close>

lemma ConfigureUploader_error:
  "snd (ConfigureUploader w) =
     (case snd (ConfigureFolder w) of
        Some err \<Rightarrow> Some (Wrap err ''failed to configure folder'')
      | None \<Rightarrow>
     (case snd (configureCompressor w) of
        Some err \<Rightarrow> Some (Wrap err ''failed to configure compression'')
      | None \<Rightarrow>
     (case snd (snd (configureWalDeltaUsage w)) of
        Some err \<Rightarrow> Some (Wrap err ''failed to configure WAL Delta usage'')
      | None \<Rightarrow> None)))"
  by (simp add: ConfigureUploader_def split: option.splits prod.splits)

section \<open>ConfigureFolder: first match wins\<close>

text \<open>
  Claim C1. Let the registry be \<open>pre @ a # post\<close>, where the activation setting of every
  adapter of \<open>pre\<close> reads as the empty string and that of \<open>a\<close> does not. Then
  \<open>ConfigureFolder\<close> stops at \<open>a\<close>: an error of \<open>a\<close>'s settings loader is returned as it
  is, with no folder; otherwise the result is whatever \<open>a\<close>'s folder constructor returns
  on the preprocessed setting, its error included; and the result is the same for every
  other tail of the registry, so no later adapter is tried, whatever its setting holds.
\<close>

theorem ConfigureFolder_first_match:
  assumes registry: "StorageAdapters w = pre @ a # post"
    and skipped: "\<forall>b \<in> set pre. GetSettingValue (env w) (prefixName b) = []"
    and present: "GetSettingValue (env w) (prefixName a) \<noteq> []"
  shows "(\<forall>st err. loadSettings a (env w) = (st, Some err) \<longrightarrow>
            ConfigureFolder w = (None, Some err)) \<and>
         (\<forall>st. loadSettings a (env w) = (st, None) \<longrightarrow>
            ConfigureFolder w = configureFolder a (adapter_prefix (env w) a) st) \<and>
         (\<forall>post'. ConfigureFolder (w\<lparr>StorageAdapters := pre @ a # post'\<rparr>) = ConfigureFolder w)"
proof -
  let ?r = "case loadSettings a (env w) of
              (st, Some err) \<Rightarrow> (None, Some err)
            | (st, None) \<Rightarrow> configureFolder a (adapter_prefix (env w) a) st"
  have sel: "ConfigureFolder_loop (env w) (pre @ a # rest) [] = ?r" for rest
  proof -
    have "ConfigureFolder_loop (env w) (pre @ a # rest) [] =
          ConfigureFolder_loop (env w) (a # rest) ([] @ map prefixName pre)"
      using skipped by (rule ConfigureFolder_loop_skip)
    also have "\<dots> = ?r"
      using present by (rule ConfigureFolder_loop_selected)
    finally show ?thesis .
  qed
  have result: "ConfigureFolder w = ?r"
    using sel [of post] by (simp add: ConfigureFolder_def registry)
  have tail: "ConfigureFolder (w\<lparr>StorageAdapters := pre @ a # post'\<rparr>) = ConfigureFolder w"
    for post'
    using sel [of post'] result by (simp add: ConfigureFolder_def)
  have load_fails: "ConfigureFolder w = (None, Some err)"
    if "loadSettings a (env w) = (st, Some err)" for st err
    using that by (simp add: result)
  have load_ok: "ConfigureFolder w = configureFolder a (adapter_prefix (env w) a) st"
    if "loadSettings a (env w) = (st, None)" for st
    using that by (simp add: result)
  from load_fails load_ok tail show ?thesis by blast
qed

text \<open>
  With the settings of \<open>B\<close> and \<open>C\<close> present, \<open>B\<close> is selected; its constructor fails on
  the preprocessed setting, and that error is the result: \<open>C\<close> is not tried. The same
  with the adapter whose settings cannot be loaded in the place of \<open>B\<close>.
\<close>

theorem ConfigureFolder_first_match_witness:
  "GetSettingValue env_B_and_C ''C_PREFIX'' = ''bucket-c'' \<and>
   ConfigureFolder (example_world env_B_and_C []) =
     (None, Some (ExternalError ''cannot open /backups'')) \<and>
   ConfigureFolder
     ((example_world env_B_and_C [])\<lparr>StorageAdapters := [adapterA, adapterL, adapterC]\<rparr>) =
     (None, Some (ExternalError ''settings of B are incomplete''))"
proof -
  let ?w = "example_world env_B_and_C []"
  let ?v = "?w\<lparr>StorageAdapters := [adapterA, adapterL, adapterC]\<rparr>"
  have registry: "StorageAdapters ?w = [adapterA] @ adapterB # [adapterC]"
    by (simp add: example_world_def)
  have skipped: "\<forall>b \<in> set [adapterA]. GetSettingValue (env ?w) (prefixName b) = []"
    by (simp add: example_defs settings_defs env_B_and_C_def)
  have present: "GetSettingValue (env ?w) (prefixName adapterB) \<noteq> []"
    by (simp add: example_defs settings_defs env_B_and_C_def)
  have load: "loadSettings adapterB (env ?w) = (''settings of B'', None)"
    by (simp add: adapterB_def)
  from ConfigureFolder_first_match [OF registry skipped present] load
  have "ConfigureFolder ?w =
          configureFolder adapterB (adapter_prefix (env ?w) adapterB) ''settings of B''"
    by blast
  then have constructor_fails:
    "ConfigureFolder ?w = (None, Some (ExternalError ''cannot open /backups''))"
    by (simp add: example_defs settings_defs env_B_and_C_def adapter_prefix_def)
  have registry': "StorageAdapters ?v = [adapterA] @ adapterL # [adapterC]"
    by simp
  have skipped': "\<forall>b \<in> set [adapterA]. GetSettingValue (env ?v) (prefixName b) = []"
    by (simp add: example_defs settings_defs env_B_and_C_def)
  have present': "GetSettingValue (env ?v) (prefixName adapterL) \<noteq> []"
    by (simp add: example_defs settings_defs env_B_and_C_def)
  have load': "loadSettings adapterL (env ?v) =
      ([], Some (ExternalError ''settings of B are incomplete''))"
    by (simp add: adapterL_def)
  from ConfigureFolder_first_match [OF registry' skipped' present'] load'
  have loader_fails:
    "ConfigureFolder ?v = (None, Some (ExternalError ''settings of B are incomplete''))"
    by blast
  from constructor_fails loader_fails show ?thesis
    by (simp add: settings_defs env_B_and_C_def)
qed

section \<open>ConfigureFolder: no storage configured\<close>

text \<open>
  Claim C5. If the activation setting of every adapter of the registry reads as the empty
  string (it is absent, or present and empty), \<open>ConfigureFolder\<close> returns no folder and
  the unconfigured-storage error whose list is the list of the activation-setting names
  of all adapters, in the order of the registry.
\<close>

theorem ConfigureFolder_unconfigured:
  assumes "\<forall>a \<in> set (StorageAdapters w). GetSettingValue (env w) (prefixName a) = []"
  shows "ConfigureFolder w =
           (None, Some (UnconfiguredStorageError (map prefixName (StorageAdapters w))))"
  using ConfigureFolder_loop_skip [of "StorageAdapters w" "env w" "[]" "[]"] assms
  by (simp add: ConfigureFolder_def NewUnconfiguredStorageError_def)

theorem ConfigureFolder_unconfigured_witness:
  "ConfigureFolder (example_world Map.empty []) =
     (None, Some (UnconfiguredStorageError [''A_PREFIX'', ''B_PREFIX'', ''C_PREFIX'']))"
proof -
  let ?w = "example_world Map.empty []"
  have none: "\<forall>a \<in> set (StorageAdapters ?w). GetSettingValue (env ?w) (prefixName a) = []"
    by (simp add: example_defs settings_defs)
  from ConfigureFolder_unconfigured [OF none] show ?thesis
    by (simp add: example_defs)
qed

section \<open>ConfigureCrypter\<close>

text \<open>
  Claim C3. If the settings source has no entry for \<open>WALG_PGP_KEY_PASSPHRASE\<close>,
  \<open>ConfigureCrypter\<close> returns \<open>nil\<close>, whatever the source holds for the inline key, the
  key file path and the key-ring id.
\<close>

theorem ConfigureCrypter_no_passphrase:
  assumes "e ''WALG_PGP_KEY_PASSPHRASE'' = None"
  shows "ConfigureCrypter e = None"
  using assms by (simp add: ConfigureCrypter_def LookupValue_def)

theorem ConfigureCrypter_no_passphrase_witness:
  "env_keys_without_passphrase ''WALG_PGP_KEY'' = Some ''armored key'' \<and>
   env_keys_without_passphrase ''WALG_PGP_KEY_PATH'' = Some ''/keys/pgp'' \<and>
   env_keys_without_passphrase ''WALE_GPG_KEY_ID'' = Some ''ring-id'' \<and>
   ConfigureCrypter env_keys_without_passphrase = None"
proof -
  have absent: "env_keys_without_passphrase ''WALG_PGP_KEY_PASSPHRASE'' = None"
    by (simp add: env_keys_without_passphrase_def)
  from ConfigureCrypter_no_passphrase [of env_keys_without_passphrase, OF absent] show ?thesis
    by (simp add: env_keys_without_passphrase_def)
qed

text \<open>
  Claim C4, as stated, fails for the key-ring id: with a passphrase, no inline key, no key
  file path and a key-ring id setting that is present with the empty string as its value,
  \<open>ConfigureCrypter\<close> returns \<open>nil\<close> and builds no Crypter from the key-ring id.
\<close>

theorem ConfigureCrypter_empty_key_ring_id_counterexample:
  "LookupValue env_empty_ring_id ''WALG_PGP_KEY_PASSPHRASE'' = (''secret'', True) \<and>
   LookupValue env_empty_ring_id ''WALG_PGP_KEY'' = ([], False) \<and>
   LookupValue env_empty_ring_id ''WALG_PGP_KEY_PATH'' = ([], False) \<and>
   LookupValue env_empty_ring_id ''WALE_GPG_KEY_ID'' = ([], True) \<and>
   ConfigureCrypter env_empty_ring_id \<noteq> Some (CrypterFromKeyRingID [] ''secret'') \<and>
   ConfigureCrypter env_empty_ring_id = None"
  by (simp add: ConfigureCrypter_def settings_defs env_empty_ring_id_def)

text \<open>
  Claim C4, amended. When the passphrase setting is present, \<open>ConfigureCrypter\<close> builds
  the Crypter from the inline key if that setting is present, whatever the file path and
  the key-ring id are; else from the key file path if that setting is present, whatever
  the key-ring id is; else from the key-ring id if that setting is present and its value
  is not the empty string; else (the key-ring id is absent or empty) it returns \<open>nil\<close>.
\<close>

theorem ConfigureCrypter_precedence:
  assumes "e ''WALG_PGP_KEY_PASSPHRASE'' = Some passphrase"
  shows "ConfigureCrypter e =
     (case e ''WALG_PGP_KEY'' of
        Some armoredKey \<Rightarrow> Some (CrypterFromArmoredKey armoredKey passphrase)
      | None \<Rightarrow>
     (case e ''WALG_PGP_KEY_PATH'' of
        Some armoredKeyPath \<Rightarrow> Some (CrypterFromArmoredKeyPath armoredKeyPath passphrase)
      | None \<Rightarrow>
     (case e ''WALE_GPG_KEY_ID'' of
        Some keyRingID \<Rightarrow>
          if keyRingID \<noteq> [] then Some (CrypterFromKeyRingID keyRingID passphrase) else None
      | None \<Rightarrow> None)))"
  using assms
  by (simp add: ConfigureCrypter_def settings_defs split: option.splits)

text \<open>
  All three key settings present: the inline key. Without the inline key: the file path.
  Without both: the key-ring id.
\<close>

theorem ConfigureCrypter_precedence_witness:
  "ConfigureCrypter env_all_keys = Some (CrypterFromArmoredKey ''armored key'' ''secret'') \<and>
   ConfigureCrypter env_path_and_ring = Some (CrypterFromArmoredKeyPath ''/keys/pgp'' ''secret'') \<and>
   ConfigureCrypter env_ring_only = Some (CrypterFromKeyRingID ''ring-id'' ''secret'')"
proof -
  have p1: "env_all_keys ''WALG_PGP_KEY_PASSPHRASE'' = Some ''secret''"
    by (simp add: env_all_keys_def)
  have p2: "env_path_and_ring ''WALG_PGP_KEY_PASSPHRASE'' = Some ''secret''"
    by (simp add: env_path_and_ring_def)
  have p3: "env_ring_only ''WALG_PGP_KEY_PASSPHRASE'' = Some ''secret''"
    by (simp add: env_ring_only_def)
  from ConfigureCrypter_precedence [of env_all_keys, OF p1]
  have "ConfigureCrypter env_all_keys = Some (CrypterFromArmoredKey ''armored key'' ''secret'')"
    by (simp add: env_all_keys_def)
  moreover from ConfigureCrypter_precedence [of env_path_and_ring, OF p2]
  have "ConfigureCrypter env_path_and_ring =
          Some (CrypterFromArmoredKeyPath ''/keys/pgp'' ''secret'')"
    by (simp add: env_path_and_ring_def)
  moreover from ConfigureCrypter_precedence [of env_ring_only, OF p3]
  have "ConfigureCrypter env_ring_only = Some (CrypterFromKeyRingID ''ring-id'' ''secret'')"
    by (simp add: env_ring_only_def)
  ultimately show ?thesis by simp
qed

text \<open>
  Claim C10. The four settings of \<open>ConfigureCrypter\<close> are not gated alike. A passphrase
  setting that is present with the empty string as its value still enables encryption;
  an inline key that is present and empty is still the key the Crypter is built from,
  whatever the key file path is; a key file path that is present and empty is still the
  path the Crypter is built from; but a key-ring id that is present and empty counts as
  absent, and the result is \<open>nil\<close>.
\<close>

theorem ConfigureCrypter_presence_gates:
  "(e ''WALG_PGP_KEY_PASSPHRASE'' = Some [] \<and> e ''WALG_PGP_KEY'' = Some armoredKey \<longrightarrow>
      ConfigureCrypter e = Some (CrypterFromArmoredKey armoredKey [])) \<and>
   (e ''WALG_PGP_KEY_PASSPHRASE'' = Some passphrase \<and> e ''WALG_PGP_KEY'' = Some [] \<longrightarrow>
      ConfigureCrypter e = Some (CrypterFromArmoredKey [] passphrase)) \<and>
   (e ''WALG_PGP_KEY_PASSPHRASE'' = Some passphrase \<and> e ''WALG_PGP_KEY'' = None \<and>
    e ''WALG_PGP_KEY_PATH'' = Some [] \<longrightarrow>
      ConfigureCrypter e = Some (CrypterFromArmoredKeyPath [] passphrase)) \<and>
   (e ''WALG_PGP_KEY_PASSPHRASE'' = Some passphrase \<and> e ''WALG_PGP_KEY'' = None \<and>
    e ''WALG_PGP_KEY_PATH'' = None \<and> e ''WALE_GPG_KEY_ID'' = Some [] \<longrightarrow>
      ConfigureCrypter e = None)"
  by (simp add: ConfigureCrypter_def settings_defs)

theorem ConfigureCrypter_presence_gates_witness:
  "ConfigureCrypter env_empty_passphrase = Some (CrypterFromArmoredKey ''armored key'' []) \<and>
   env_empty_key ''WALG_PGP_KEY_PATH'' = Some ''/keys/pgp'' \<and>
   ConfigureCrypter env_empty_key = Some (CrypterFromArmoredKey [] ''secret'') \<and>
   env_empty_path ''WALE_GPG_KEY_ID'' = Some ''ring-id'' \<and>
   ConfigureCrypter env_empty_path = Some (CrypterFromArmoredKeyPath [] ''secret'') \<and>
   ConfigureCrypter env_empty_ring_id = None"
proof -
  have h1: "env_empty_passphrase ''WALG_PGP_KEY_PASSPHRASE'' = Some [] \<and>
            env_empty_passphrase ''WALG_PGP_KEY'' = Some ''armored key''"
    by (simp add: env_empty_passphrase_def)
  have h2: "env_empty_key ''WALG_PGP_KEY_PASSPHRASE'' = Some ''secret'' \<and>
            env_empty_key ''WALG_PGP_KEY'' = Some []"
    by (simp add: env_empty_key_def)
  have h3: "env_empty_path ''WALG_PGP_KEY_PASSPHRASE'' = Some ''secret'' \<and>
            env_empty_path ''WALG_PGP_KEY'' = None \<and>
            env_empty_path ''WALG_PGP_KEY_PATH'' = Some []"
    by (simp add: env_empty_path_def)
  have h4: "env_empty_ring_id ''WALG_PGP_KEY_PASSPHRASE'' = Some ''secret'' \<and>
            env_empty_ring_id ''WALG_PGP_KEY'' = None \<and>
            env_empty_ring_id ''WALG_PGP_KEY_PATH'' = None \<and>
            env_empty_ring_id ''WALE_GPG_KEY_ID'' = Some []"
    by (simp add: env_empty_ring_id_def)
  from ConfigureCrypter_presence_gates [of env_empty_passphrase "''armored key''"] h1
  have c1: "ConfigureCrypter env_empty_passphrase = Some (CrypterFromArmoredKey ''armored key'' [])"
    by blast
  from ConfigureCrypter_presence_gates [of env_empty_key _ "''secret''"] h2
  have c2: "ConfigureCrypter env_empty_key = Some (CrypterFromArmoredKey [] ''secret'')"
    by blast
  from ConfigureCrypter_presence_gates [of env_empty_path _ "''secret''"] h3
  have c3: "ConfigureCrypter env_empty_path = Some (CrypterFromArmoredKeyPath [] ''secret'')"
    by blast
  from ConfigureCrypter_presence_gates [of env_empty_ring_id _ "''secret''"] h4
  have c4: "ConfigureCrypter env_empty_ring_id = None"
    by blast
  from c1 c2 c3 c4 show ?thesis
    by (simp add: env_empty_key_def env_empty_path_def)
qed

section \<open>The delta data folder\<close>

text \<open>
  Claim C8. \<open>getDataFolderPath\<close> is the fallback chain of the specification: the base is
  the default temporary directory \<open>/tmp\<close> when \<open>PGDATA\<close> is absent; otherwise it is the
  first of \<open>PGDATA\<close> joined with \<open>pg_wal\<close> and \<open>PGDATA\<close> joined with \<open>pg_xlog\<close> that
  exists, and \<open>/tmp\<close> when neither exists; the result is the base joined with
  \<open>walg_data\<close> in every case.
\<close>

theorem getDataFolderPath_fallback_chain:
  "getDataFolderPath w = filepath_Join w (base_directory_spec w) ''walg_data''"
  by (simp add: getDataFolderPath_def base_directory_spec_def first_existing_def
      LookupValue_def DefaultDataFolderPath_def Let_def split: option.splits)

text \<open>
  No \<open>PGDATA\<close>; \<open>PGDATA\<close> with both sub-paths, with \<open>pg_xlog\<close> only, and with neither.
\<close>

theorem getDataFolderPath_fallback_chain_witness:
  "getDataFolderPath (example_world Map.empty [''/var/lib/pg/pg_wal'']) = ''/tmp/walg_data'' \<and>
   getDataFolderPath (example_world env_pgdata [''/var/lib/pg/pg_wal'', ''/var/lib/pg/pg_xlog'']) =
     ''/var/lib/pg/pg_wal/walg_data'' \<and>
   getDataFolderPath (example_world env_pgdata [''/var/lib/pg/pg_xlog'']) =
     ''/var/lib/pg/pg_xlog/walg_data'' \<and>
   getDataFolderPath (example_world env_pgdata []) = ''/tmp/walg_data''"
proof -
  have spec:
    "base_directory_spec (example_world Map.empty [''/var/lib/pg/pg_wal'']) = ''/tmp''"
    "base_directory_spec
       (example_world env_pgdata [''/var/lib/pg/pg_wal'', ''/var/lib/pg/pg_xlog'']) =
     ''/var/lib/pg/pg_wal''"
    "base_directory_spec (example_world env_pgdata [''/var/lib/pg/pg_xlog'']) =
     ''/var/lib/pg/pg_xlog''"
    "base_directory_spec (example_world env_pgdata []) = ''/tmp''"
    by (simp_all add: base_directory_spec_def first_existing_def example_world_def env_pgdata_def)
  show ?thesis
    using getDataFolderPath_fallback_chain [of "example_world Map.empty [''/var/lib/pg/pg_wal'']"]
      getDataFolderPath_fallback_chain
        [of "example_world env_pgdata [''/var/lib/pg/pg_wal'', ''/var/lib/pg/pg_xlog'']"]
      getDataFolderPath_fallback_chain [of "example_world env_pgdata [''/var/lib/pg/pg_xlog'']"]
      getDataFolderPath_fallback_chain [of "example_world env_pgdata []"]
    by (simp add: spec) (simp add: example_world_def)
qed




section \<open>ConfigureUploader and the delta step\<close>

text \<open>
  Claim C2, as stated, fails for a malformed use-delta setting: with a storage folder and
  a compressor that resolve and \<open>WALG_USE_WAL_DELTA\<close> set to \<open>maybe\<close>, the delta step
  returns the parse error of \<open>strconv.ParseBool\<close>, wrapped, and \<open>ConfigureUploader\<close> returns
  no uploader and that error, wrapped once more.
\<close>

theorem ConfigureUploader_delta_parse_error_counterexample:
  "ConfigureFolder (example_world env_delta_malformed []) = (Some ''A:bucket-a'', None) \<and>
   configureCompressor (example_world env_delta_malformed []) = (Some ''lz4 compressor'', None) \<and>
   configureWalDeltaUsage (example_world env_delta_malformed []) =
     (False, None,
      Some (Wrap (NumError ''ParseBool'' ''maybe'' ErrSyntax)
              ''failed to parse WALG_USE_WAL_DELTA'')) \<and>
   ConfigureUploader (example_world env_delta_malformed []) =
     (None,
      Some (Wrap (Wrap (NumError ''ParseBool'' ''maybe'' ErrSyntax)
                    ''failed to parse WALG_USE_WAL_DELTA'')
              ''failed to configure WAL Delta usage''))"
proof -
  let ?w = "example_world env_delta_malformed []"
  have folder: "ConfigureFolder ?w = (Some ''A:bucket-a'', None)"
    by (simp add: ConfigureFolder_def example_defs settings_defs env_delta_malformed_def)
  have compressor: "configureCompressor ?w = (Some ''lz4 compressor'', None)"
    by (simp add: configureCompressor_def example_world_def settings_defs
        env_delta_malformed_def)
  have delta: "configureWalDeltaUsage ?w =
     (False, None,
      Some (Wrap (NumError ''ParseBool'' ''maybe'' ErrSyntax)
              ''failed to parse WALG_USE_WAL_DELTA''))"
    by (simp add: configureWalDeltaUsage_def example_world_def settings_defs
        env_delta_malformed_def ParseBool_def)
  from folder compressor delta show ?thesis
    by (simp add: ConfigureUploader_def)
qed

text \<open>
  Claim C2, amended. \<open>ConfigureUploader\<close> never fails because of the delta folder: when
  the storage folder and the compressor resolve, the error it returns does not depend on
  the disk (what \<open>os.Stat\<close> and \<open>NewDiskDataFolder\<close> return), and it is an error exactly
  when the use-delta setting is present with a value that \<open>strconv.ParseBool\<close> rejects.
  The result is then no uploader and that parse error, wrapped by the delta step and by
  \<open>ConfigureUploader\<close>; in every other case the result is an uploader, built from the
  resolved compressor and folder, and no error.
\<close>

theorem ConfigureUploader_delta_errors:
  assumes "ConfigureFolder w = (folder, None)"
    and "configureCompressor w = (compressor, None)"
  shows "snd (ConfigureUploader w) =
           (case env w ''WALG_USE_WAL_DELTA'' of
              None \<Rightarrow> None
            | Some s \<Rightarrow>
                (case snd (ParseBool s) of
                   None \<Rightarrow> None
                 | Some err \<Rightarrow>
                     Some (Wrap (Wrap err ''failed to parse WALG_USE_WAL_DELTA'')
                             ''failed to configure WAL Delta usage''))) \<and>
         (\<forall>s err. env w ''WALG_USE_WAL_DELTA'' = Some s \<and> snd (ParseBool s) = Some err \<longrightarrow>
            ConfigureUploader w =
              (None, Some (Wrap (Wrap err ''failed to parse WALG_USE_WAL_DELTA'')
                             ''failed to configure WAL Delta usage''))) \<and>
         ((env w ''WALG_USE_WAL_DELTA'' = None \<or>
           (\<exists>s. env w ''WALG_USE_WAL_DELTA'' = Some s \<and> snd (ParseBool s) = None)) \<longrightarrow>
            (\<exists>deltaFolder useDelta.
               ConfigureUploader w =
                 (Some (NewUploader compressor folder deltaFolder useDelta), None))) \<and>
         (\<forall>stat disk.
            snd (ConfigureUploader (w\<lparr>os_Stat := stat, NewDiskDataFolder := disk\<rparr>)) =
            snd (ConfigureUploader w))"
proof -
  obtain useDelta deltaFolder derr
    where delta: "configureWalDeltaUsage w = (useDelta, deltaFolder, derr)"
    by (cases "configureWalDeltaUsage w") auto
  have derr: "derr =
     (case env w ''WALG_USE_WAL_DELTA'' of
        None \<Rightarrow> None
      | Some s \<Rightarrow>
          (case snd (ParseBool s) of
             None \<Rightarrow> None
           | Some err \<Rightarrow> Some (Wrap err ''failed to parse WALG_USE_WAL_DELTA'')))"
    using configureWalDeltaUsage_error [of w] by (simp add: delta)
  have same_folder: "ConfigureFolder (w\<lparr>os_Stat := stat, NewDiskDataFolder := disk\<rparr>) =
      ConfigureFolder w" for stat disk
    by (simp add: ConfigureFolder_def)
  have same_compressor:
    "configureCompressor (w\<lparr>os_Stat := stat, NewDiskDataFolder := disk\<rparr>) =
      configureCompressor w" for stat disk
    by (simp add: configureCompressor_def Let_def split: option.splits)
  have first: "snd (ConfigureUploader w) =
           (case env w ''WALG_USE_WAL_DELTA'' of
              None \<Rightarrow> None
            | Some s \<Rightarrow>
                (case snd (ParseBool s) of
                   None \<Rightarrow> None
                 | Some err \<Rightarrow>
                     Some (Wrap (Wrap err ''failed to parse WALG_USE_WAL_DELTA'')
                             ''failed to configure WAL Delta usage'')))"
    using assms
    by (simp add: ConfigureUploader_error configureWalDeltaUsage_error split: option.splits)
  have rejected: "ConfigureUploader w =
      (None, Some (Wrap (Wrap err ''failed to parse WALG_USE_WAL_DELTA'')
                     ''failed to configure WAL Delta usage''))"
    if "env w ''WALG_USE_WAL_DELTA'' = Some s" and "snd (ParseBool s) = Some err" for s err
    using that assms by (simp add: ConfigureUploader_def delta derr)
  have accepted: "ConfigureUploader w =
      (Some (NewUploader compressor folder deltaFolder useDelta), None)"
    if "env w ''WALG_USE_WAL_DELTA'' = None \<or>
        (\<exists>s. env w ''WALG_USE_WAL_DELTA'' = Some s \<and> snd (ParseBool s) = None)"
    using that assms by (auto simp add: ConfigureUploader_def delta derr)
  have second: "snd (ConfigureUploader (w\<lparr>os_Stat := stat, NewDiskDataFolder := disk\<rparr>)) =
      snd (ConfigureUploader w)" for stat disk
    using assms
    by (simp add: ConfigureUploader_error configureWalDeltaUsage_error
        same_folder same_compressor)
  from first rejected accepted second show ?thesis by blast
qed

text \<open>
  The delta folder cannot be opened and the setting is \<open>true\<close>: an uploader and no error.
  The setting is \<open>false\<close>: an uploader and no error. The setting is \<open>maybe\<close>: no uploader
  and the parse error.
\<close>

theorem ConfigureUploader_delta_errors_witness:
  "NewDiskDataFolder (example_world env_delta_true [])
     (getDataFolderPath (example_world env_delta_true [])) =
     (None, Some (ExternalError ''permission denied'')) \<and>
   snd (ConfigureUploader (example_world env_delta_true [])) = None \<and>
   (\<exists>deltaFolder useDelta. ConfigureUploader (example_world env_delta_true []) =
      (Some (NewUploader (Some ''lz4 compressor'') (Some ''A:bucket-a'') deltaFolder useDelta),
       None)) \<and>
   snd (ConfigureUploader (example_world env_delta_false [])) = None \<and>
   ConfigureUploader (example_world env_delta_malformed []) =
     (None,
      Some (Wrap (Wrap (NumError ''ParseBool'' ''maybe'' ErrSyntax)
                    ''failed to parse WALG_USE_WAL_DELTA'')
              ''failed to configure WAL Delta usage''))"
proof -
  let ?t = "example_world env_delta_true []"
  let ?f = "example_world env_delta_false []"
  let ?m = "example_world env_delta_malformed []"
  have folder_t: "ConfigureFolder ?t = (Some ''A:bucket-a'', None)"
    by (simp add: ConfigureFolder_def example_defs settings_defs env_delta_true_def)
  have compressor_t: "configureCompressor ?t = (Some ''lz4 compressor'', None)"
    by (simp add: configureCompressor_def example_world_def settings_defs env_delta_true_def)
  have folder_f: "ConfigureFolder ?f = (Some ''A:bucket-a'', None)"
    by (simp add: ConfigureFolder_def example_defs settings_defs env_delta_false_def)
  have compressor_f: "configureCompressor ?f = (Some ''lz4 compressor'', None)"
    by (simp add: configureCompressor_def example_world_def settings_defs env_delta_false_def)
  have folder_m: "ConfigureFolder ?m = (Some ''A:bucket-a'', None)"
    by (simp add: ConfigureFolder_def example_defs settings_defs env_delta_malformed_def)
  have compressor_m: "configureCompressor ?m = (Some ''lz4 compressor'', None)"
    by (simp add: configureCompressor_def example_world_def settings_defs
        env_delta_malformed_def)
  have setting_t: "env ?t ''WALG_USE_WAL_DELTA'' = Some ''true'' \<and> snd (ParseBool ''true'') = None"
    by (simp add: example_world_def env_delta_true_def ParseBool_def)
  have setting_m: "env ?m ''WALG_USE_WAL_DELTA'' = Some ''maybe'' \<and>
      snd (ParseBool ''maybe'') = Some (NumError ''ParseBool'' ''maybe'' ErrSyntax)"
    by (simp add: example_world_def env_delta_malformed_def ParseBool_def)
  note at_t = ConfigureUploader_delta_errors [OF folder_t compressor_t]
  from at_t have t: "snd (ConfigureUploader ?t) = None"
    by (simp add: example_world_def env_delta_true_def ParseBool_def)
  from at_t setting_t
  have u: "\<exists>deltaFolder useDelta. ConfigureUploader ?t =
      (Some (NewUploader (Some ''lz4 compressor'') (Some ''A:bucket-a'') deltaFolder useDelta),
       None)"
    by blast
  from ConfigureUploader_delta_errors [OF folder_f compressor_f]
  have f: "snd (ConfigureUploader ?f) = None"
    by (simp add: example_world_def env_delta_false_def ParseBool_def)
  from ConfigureUploader_delta_errors [OF folder_m compressor_m] setting_m
  have m: "ConfigureUploader ?m =
     (None,
      Some (Wrap (Wrap (NumError ''ParseBool'' ''maybe'' ErrSyntax)
                    ''failed to parse WALG_USE_WAL_DELTA'')
              ''failed to configure WAL Delta usage''))"
    by blast
  have disk: "NewDiskDataFolder ?t (getDataFolderPath ?t) =
      (None, Some (ExternalError ''permission denied''))"
    by (simp add: example_world_def)
  from disk t u f m show ?thesis by blast
qed

section \<open>ConfigureLimiters\<close>

text \<open>
  Claim C6, as stated, fails in three ways. A network limit that parses is not turned
  into a limiter when the disk limit before it does not parse: \<open>ConfigureLimiters\<close> has
  returned the disk limit's parse error by then. The rate of the limiter is the
  \<open>float64\<close> nearest to the parsed integer: for the disk limit \<open>9007199254740993\<close> it is
  \<open>9007199254740992\<close>. And the sum of the rate and the constant is an \<open>int64\<close> sum: for
  the disk limit \<open>9223372036854775807\<close>, which parses, and pages of 8192 bytes it wraps
  around, and the burst of the limiter is negative, below the parsed rate.
\<close>

theorem ConfigureLimiters_burst_counterexample:
  "ParseInt ''100'' = (100, None) \<and>
   ConfigureLimiters (example_world env_disk_malformed []) no_limiters =
     (no_limiters,
      Some (Wrap (NumError ''ParseInt'' ''abc'' ErrSyntax)
              ''failed to parse WALG_DISK_RATE_LIMIT'')) \<and>
   NetworkLimiter no_limiters = None \<and>
   ParseInt ''9007199254740993'' = (9007199254740993, None) \<and>
   ConfigureLimiters (example_world env_disk_rounded []) no_limiters =
     (\<lparr>DiskLimiter = Some \<lparr>limit = 9007199254740992, burst = 9007199254806529\<rparr>,
       NetworkLimiter = None\<rparr>, None) \<and>
   ParseInt ''9223372036854775807'' = (9223372036854775807, None) \<and>
   DiskLimiter (fst (ConfigureLimiters (example_world env_disk_max []) no_limiters)) =
     Some (NewLimiter 9223372036854775808 (9223372036854775807 + 8 * 8192)) \<and>
   sint (burst (NewLimiter 9223372036854775808 (9223372036854775807 + 8 * 8192))) =
     - 9223372036854710273 \<and>
   sint (burst (NewLimiter 9223372036854775808 (9223372036854775807 + 8 * 8192))) <
     sint (9223372036854775807 :: 64 word)"
proof -
  have net: "ParseInt ''100'' = (100, None)"
    by (simp add: ParseInt_defs)
  have abc: "ParseInt ''abc'' = (0, Some (NumError ''ParseInt'' ''abc'' ErrSyntax))"
    by (simp add: ParseInt_defs)
  have rounded: "ParseInt ''9007199254740993'' = (9007199254740993, None)"
    by (simp add: ParseInt_defs)
  have max: "ParseInt ''9223372036854775807'' = (9223372036854775807, None)"
    by (simp add: ParseInt_defs)
  have rate_rounded: "rate_Limit 9007199254740993 = 9007199254740992"
    by (simp add: rate_Limit_def float64_of_int_def bit_length.simps)
  have rate_max: "rate_Limit 9223372036854775807 = 9223372036854775808"
    by (simp add: rate_Limit_def float64_of_int_def bit_length.simps)
  have early: "ConfigureLimiters (example_world env_disk_malformed []) no_limiters =
     (no_limiters,
      Some (Wrap (NumError ''ParseInt'' ''abc'' ErrSyntax)
              ''failed to parse WALG_DISK_RATE_LIMIT''))"
    by (simp add: ConfigureLimiters_def example_world_def settings_defs
        env_disk_malformed_def abc)
  have rounds: "ConfigureLimiters (example_world env_disk_rounded []) no_limiters =
     (\<lparr>DiskLimiter = Some \<lparr>limit = 9007199254740992, burst = 9007199254806529\<rparr>,
       NetworkLimiter = None\<rparr>, None)"
    by (simp add: ConfigureLimiters_def ConfigureLimiters_network_def example_world_def
        settings_defs env_disk_rounded_def rounded rate_rounded NewLimiter_def
        DefaultDataBurstRateLimit_def no_limiters_def)
  have wraps: "DiskLimiter (fst (ConfigureLimiters (example_world env_disk_max []) no_limiters)) =
     Some (NewLimiter 9223372036854775808 (9223372036854775807 + 8 * 8192))"
    by (simp add: ConfigureLimiters_def ConfigureLimiters_network_def example_world_def
        settings_defs env_disk_max_def max rate_max DefaultDataBurstRateLimit_def
        no_limiters_def)
  from net rounded max early rounds wraps show ?thesis
    by (simp add: NewLimiter_def no_limiters_def)
qed

text \<open>
  Claim C6, amended. Let the page size be a non-negative \<open>int64\<close> with 8 pages in the
  range of \<open>int64\<close>, and let \<open>R\<close> plus 8 pages not exceed the largest \<open>int64\<close>. For every
  disk rate-limit value that parses as \<open>R\<close>, \<open>ConfigureLimiters\<close> sets the disk limiter
  to the one whose rate is the \<open>float64\<close> nearest to \<open>R\<close>, which is \<open>R\<close> itself when \<open>R\<close> is
  at most \<open>2 ^ 53\<close> in absolute value, and whose burst is exactly \<open>R\<close> plus 8 pages, which
  is at least \<open>R\<close>. For every network rate-limit value that parses as \<open>R\<close>, when the disk
  setting is empty or parses, it returns no error and sets the network limiter to the
  one with that rate and that burst. When the disk setting is not empty and does not
  parse, it returns that parse error, wrapped, with both limiters as they were: the
  network setting is not read.
\<close>

theorem ConfigureLimiters_burst:
  assumes page: "0 \<le> sint (DatabasePageSize w)" "8 * sint (DatabasePageSize w) < 2 ^ 63"
    and fits: "sint R + 8 * sint (DatabasePageSize w) < 2 ^ 63"
  shows
    "(ParseInt (GetSettingValue (env w) ''WALG_DISK_RATE_LIMIT'') = (R, None) \<longrightarrow>
        (\<exists>l. DiskLimiter (fst (ConfigureLimiters w g)) = Some l \<and>
             limit l = rate_Limit R \<and>
             (\<bar>sint R\<bar> \<le> 2 ^ 53 \<longrightarrow> limit l = sint R) \<and>
             sint (burst l) = sint R + 8 * sint (DatabasePageSize w) \<and>
             sint R \<le> sint (burst l))) \<and>
     ((GetSettingValue (env w) ''WALG_DISK_RATE_LIMIT'' = [] \<or>
         snd (ParseInt (GetSettingValue (env w) ''WALG_DISK_RATE_LIMIT'')) = None) \<and>
      ParseInt (GetSettingValue (env w) ''WALG_NETWORK_RATE_LIMIT'') = (R, None) \<longrightarrow>
        snd (ConfigureLimiters w g) = None \<and>
        (\<exists>l. NetworkLimiter (fst (ConfigureLimiters w g)) = Some l \<and>
             limit l = rate_Limit R \<and>
             (\<bar>sint R\<bar> \<le> 2 ^ 53 \<longrightarrow> limit l = sint R) \<and>
             sint (burst l) = sint R + 8 * sint (DatabasePageSize w) \<and>
             sint R \<le> sint (burst l))) \<and>
     (\<forall>v err.
        GetSettingValue (env w) ''WALG_DISK_RATE_LIMIT'' \<noteq> [] \<and>
        ParseInt (GetSettingValue (env w) ''WALG_DISK_RATE_LIMIT'') = (v, Some err) \<longrightarrow>
          ConfigureLimiters w g = (g, Some (Wrap err ''failed to parse WALG_DISK_RATE_LIMIT'')))"
proof -
  let ?l = "NewLimiter (rate_Limit R) (R + DefaultDataBurstRateLimit w)"
  have rate: "limit ?l = rate_Limit R"
    by (simp add: NewLimiter_def)
  have exact: "limit ?l = sint R" if "\<bar>sint R\<bar> \<le> 2 ^ 53"
    using float64_of_int_exact [OF that] by (simp add: NewLimiter_def rate_Limit_def)
  have sum: "sint (burst ?l) = sint R + 8 * sint (DatabasePageSize w)"
    using sint_burst_no_overflow [OF page fits]
    by (simp add: NewLimiter_def DefaultDataBurstRateLimit_def)
  have above: "sint R \<le> sint (burst ?l)"
    using page by (simp add: sum)
  have disk: "DiskLimiter (fst (ConfigureLimiters w g)) = Some ?l"
    if d: "ParseInt (GetSettingValue (env w) ''WALG_DISK_RATE_LIMIT'') = (R, None)"
  proof -
    from d have "GetSettingValue (env w) ''WALG_DISK_RATE_LIMIT'' \<noteq> []"
      by (auto simp add: ParseInt_empty)
    with d show ?thesis
      by (simp add: ConfigureLimiters_def ConfigureLimiters_network_DiskLimiter Let_def)
  qed
  have network: "snd (ConfigureLimiters w g) = None \<and>
      NetworkLimiter (fst (ConfigureLimiters w g)) = Some ?l"
    if a: "GetSettingValue (env w) ''WALG_DISK_RATE_LIMIT'' = [] \<or>
           snd (ParseInt (GetSettingValue (env w) ''WALG_DISK_RATE_LIMIT'')) = None"
      and n: "ParseInt (GetSettingValue (env w) ''WALG_NETWORK_RATE_LIMIT'') = (R, None)"
  proof -
    from n have "GetSettingValue (env w) ''WALG_NETWORK_RATE_LIMIT'' \<noteq> []"
      by (auto simp add: ParseInt_empty)
    with a n show ?thesis
      by (auto simp add: ConfigureLimiters_def ConfigureLimiters_network_def Let_def
          split: prod.splits option.splits)
  qed
  have early: "ConfigureLimiters w g = (g, Some (Wrap err ''failed to parse WALG_DISK_RATE_LIMIT''))"
    if "GetSettingValue (env w) ''WALG_DISK_RATE_LIMIT'' \<noteq> []"
      and "ParseInt (GetSettingValue (env w) ''WALG_DISK_RATE_LIMIT'') = (v, Some err)"
    for v err
    using that by (simp add: ConfigureLimiters_def Let_def)
  from rate exact sum above disk network early show ?thesis by blast
qed

text \<open>
  Both limits set: rates 1048576 and 2097152, bursts 65536 above them. The disk limit
  malformed: its parse error, and no limiter set.
\<close>

theorem ConfigureLimiters_burst_witness:
  "ConfigureLimiters (example_world env_limits []) no_limiters =
     (\<lparr>DiskLimiter = Some \<lparr>limit = 1048576, burst = 1114112\<rparr>,
       NetworkLimiter = Some \<lparr>limit = 2097152, burst = 2162688\<rparr>\<rparr>, None) \<and>
   (\<exists>l. DiskLimiter (fst (ConfigureLimiters (example_world env_limits []) no_limiters)) = Some l \<and>
        limit l = 1048576 \<and> sint (burst l) = 1114112) \<and>
   (\<exists>l. NetworkLimiter (fst (ConfigureLimiters (example_world env_limits []) no_limiters)) = Some l \<and>
        limit l = 2097152 \<and> sint (burst l) = 2162688) \<and>
   ConfigureLimiters (example_world env_disk_malformed []) no_limiters =
     (no_limiters,
      Some (Wrap (NumError ''ParseInt'' ''abc'' ErrSyntax)
              ''failed to parse WALG_DISK_RATE_LIMIT''))"
proof -
  let ?w = "example_world env_limits []"
  let ?m = "example_world env_disk_malformed []"
  have page: "0 \<le> sint (DatabasePageSize ?w)" "8 * sint (DatabasePageSize ?w) < 2 ^ 63"
    by (simp_all add: example_world_def)
  have page_m: "0 \<le> sint (DatabasePageSize ?m)" "8 * sint (DatabasePageSize ?m) < 2 ^ 63"
    by (simp_all add: example_world_def)
  have disk: "ParseInt (GetSettingValue (env ?w) ''WALG_DISK_RATE_LIMIT'') = (1048576, None)"
    by (simp add: example_world_def settings_defs env_limits_def ParseInt_defs)
  have net: "ParseInt (GetSettingValue (env ?w) ''WALG_NETWORK_RATE_LIMIT'') = (2097152, None)"
    by (simp add: example_world_def settings_defs env_limits_def ParseInt_defs)
  have disk_ok: "snd (ParseInt (GetSettingValue (env ?w) ''WALG_DISK_RATE_LIMIT'')) = None"
    by (simp add: disk)
  have malformed: "GetSettingValue (env ?m) ''WALG_DISK_RATE_LIMIT'' \<noteq> [] \<and>
      ParseInt (GetSettingValue (env ?m) ''WALG_DISK_RATE_LIMIT'') =
        (0, Some (NumError ''ParseInt'' ''abc'' ErrSyntax))"
    by (simp add: example_world_def settings_defs env_disk_malformed_def ParseInt_defs)
  have fits_disk: "sint (1048576 :: 64 word) + 8 * sint (DatabasePageSize ?w) < 2 ^ 63"
    by (simp add: example_world_def)
  have fits_net: "sint (2097152 :: 64 word) + 8 * sint (DatabasePageSize ?w) < 2 ^ 63"
    by (simp add: example_world_def)
  have fits_m: "sint (0 :: 64 word) + 8 * sint (DatabasePageSize ?m) < 2 ^ 63"
    by (simp add: example_world_def)
  have pages: "8 * sint (DatabasePageSize ?w) = 65536"
    by (simp add: example_world_def)
  have small: "\<bar>sint (1048576 :: 64 word)\<bar> \<le> 2 ^ 53" "\<bar>sint (2097152 :: 64 word)\<bar> \<le> 2 ^ 53"
    by simp_all
  from ConfigureLimiters_burst [where w = ?w and R = 1048576 and g = no_limiters,
      OF page fits_disk] disk small(1)
  have d: "\<exists>l. DiskLimiter (fst (ConfigureLimiters ?w no_limiters)) = Some l \<and>
        limit l = 1048576 \<and> sint (burst l) = 1114112"
    by (auto simp add: pages)
  from ConfigureLimiters_burst [where w = ?w and R = 2097152 and g = no_limiters,
      OF page fits_net] disk_ok net small(2)
  have n: "\<exists>l. NetworkLimiter (fst (ConfigureLimiters ?w no_limiters)) = Some l \<and>
        limit l = 2097152 \<and> sint (burst l) = 2162688"
    by (auto simp add: pages)
  from ConfigureLimiters_burst [where w = ?m and R = 0 and g = no_limiters,
      OF page_m fits_m] malformed
  have e: "ConfigureLimiters ?m no_limiters =
     (no_limiters,
      Some (Wrap (NumError ''ParseInt'' ''abc'' ErrSyntax)
              ''failed to parse WALG_DISK_RATE_LIMIT''))"
    by blast
  have run: "ConfigureLimiters ?w no_limiters =
     (\<lparr>DiskLimiter = Some \<lparr>limit = 1048576, burst = 1114112\<rparr>,
       NetworkLimiter = Some \<lparr>limit = 2097152, burst = 2162688\<rparr>\<rparr>, None)"
    by (simp add: ConfigureLimiters_def ConfigureLimiters_network_def example_world_def
        settings_defs env_limits_def ParseInt_defs NewLimiter_def rate_Limit_def
        float64_of_int_def DefaultDataBurstRateLimit_def no_limiters_def)
  from run d n e show ?thesis by blast
qed

end
